theory Spec2Isabelle
  imports Main "HOL-Library.Sublist" "HOL-Library.Word"
begin

section \<open>JavaScript values\<close>

text \<open>
  The app is TypeScript over untyped (\<open>any\<close>) configuration and JSON values. A value is
  one of the JSON-shaped JavaScript values; an object keeps its properties in insertion
  order, as \<open>JSON.stringify\<close> walks them. Numbers are the integers the program meets
  (millisecond timestamps, seconds, durations).
\<close>

datatype jsval =
    JUndefined
  | JNull
  | JBool bool
  | JNum int
  | JStr string
  | JArr "jsval list"
  | JObj "(string \<times> jsval) list"

text \<open>A thrown \<open>Error\<close>, carried by its message.\<close>

datatype js_error = Error string

fun message :: "js_error \<Rightarrow> string" where
  "message (Error m) = m"

text \<open>JavaScript truthiness: what \<open>!v\<close> and \<open>a || b\<close> test.\<close>

fun truthy :: "jsval \<Rightarrow> bool" where
  "truthy JUndefined = False"
| "truthy JNull = False"
| "truthy (JBool b) = b"
| "truthy (JNum n) = (n \<noteq> 0)"
| "truthy (JStr s) = (s \<noteq> [])"
| "truthy (JArr xs) = True"
| "truthy (JObj fs) = True"

text \<open>Property read \<open>o.k\<close> on an object: the value, or \<open>undefined\<close>.\<close>

definition get_prop :: "(string \<times> jsval) list \<Rightarrow> string \<Rightarrow> jsval" where
  "get_prop fs k = (case map_of fs k of None \<Rightarrow> JUndefined | Some v \<Rightarrow> v)"

section \<open>Strings: numbers, JSON, base64, UTF-8\<close>

text \<open>
  A string is a list of 8-bit characters: the code units U+0000 to U+00FF. The decimal
  form of a number is the one JavaScript prints for an integer below \<open>10^21\<close>.
\<close>

definition digit_char :: "nat \<Rightarrow> char" where
  "digit_char d = char_of (48 + d)"

fun nat_to_string :: "nat \<Rightarrow> string" where
  "nat_to_string n =
     (if n < 10 then [digit_char n] else nat_to_string (n div 10) @ [digit_char (n mod 10)])"

declare nat_to_string.simps [simp del]

definition number_to_string :: "int \<Rightarrow> string" where
  "number_to_string i =
     (if i < 0 then CHR ''-'' # nat_to_string (nat (- i)) else nat_to_string (nat i))"

text \<open>\<open>Array.prototype.join\<close> on strings.\<close>

fun join :: "string \<Rightarrow> string list \<Rightarrow> string" where
  "join sep [] = []"
| "join sep [x] = x"
| "join sep (x # y # ys) = x @ sep @ join sep (y # ys)"

text \<open>
  \<open>ToString\<close>, as a template literal applies it: an array prints its elements joined by
  commas, \<open>null\<close> and \<open>undefined\<close> elements as nothing.
\<close>

fun toString :: "jsval \<Rightarrow> string" where
  "toString JUndefined = ''undefined''"
| "toString JNull = ''null''"
| "toString (JBool b) = (if b then ''true'' else ''false'')"
| "toString (JNum n) = number_to_string n"
| "toString (JStr s) = s"
| "toString (JArr xs) =
     join '','' (map (\<lambda>x. if x = JUndefined \<or> x = JNull then [] else toString x) xs)"
| "toString (JObj fs) = ''[object Object]''"

definition hex_digit :: "nat \<Rightarrow> char" where
  "hex_digit d = (if d < 10 then char_of (48 + d) else char_of (87 + d))"

text \<open>
  \<open>JSON.stringify\<close>. A string is quoted with the JSON escapes: the short forms for
  backspace, tab, line feed, form feed and carriage return, a backslash before a double
  quote and a backslash, and \<open>\u00xx\<close> for the other control characters.
\<close>

definition json_escape_char :: "char \<Rightarrow> string" where
  "json_escape_char c =
     (let n = (of_char c :: nat) in
      if n = 8 then [CHR 0x5C, CHR ''b'']
      else if n = 9 then [CHR 0x5C, CHR ''t'']
      else if n = 10 then [CHR 0x5C, CHR ''n'']
      else if n = 12 then [CHR 0x5C, CHR ''f'']
      else if n = 13 then [CHR 0x5C, CHR ''r'']
      else if n = 34 then [CHR 0x5C, CHR 0x22]
      else if n = 92 then [CHR 0x5C, CHR 0x5C]
      else if n < 32 then
        [CHR 0x5C, CHR ''u'', CHR ''0'', CHR ''0'', hex_digit (n div 16), hex_digit (n mod 16)]
      else [c])"

definition json_quote :: "string \<Rightarrow> string" where
  "json_quote s = CHR 0x22 # concat (map json_escape_char s) @ [CHR 0x22]"

text \<open>
  The result is \<open>None\<close> where \<open>JSON.stringify\<close> returns \<open>undefined\<close>. An array prints an
  \<open>undefined\<close> element as \<open>null\<close>; an object leaves out a property whose value is
  \<open>undefined\<close> and prints the others in their order.
\<close>

fun stringify :: "jsval \<Rightarrow> string option" where
  "stringify JUndefined = None"
| "stringify JNull = Some ''null''"
| "stringify (JBool b) = Some (if b then ''true'' else ''false'')"
| "stringify (JNum n) = Some (number_to_string n)"
| "stringify (JStr s) = Some (json_quote s)"
| "stringify (JArr xs) =
     Some (''['' @ join '','' (map (\<lambda>x. case stringify x of None \<Rightarrow> ''null'' | Some s \<Rightarrow> s) xs)
           @ '']'')"
| "stringify (JObj fs) =
     Some (''{'' @ join '','' (concat (map (\<lambda>kv. case stringify (snd kv) of None \<Rightarrow> []
                | Some s \<Rightarrow> [json_quote (fst kv) @ '':'' @ s]) fs)) @ ''}'')"

text \<open>An object always has a JSON text.\<close>

definition stringify_obj :: "(string \<times> jsval) list \<Rightarrow> string" where
  "stringify_obj fs = (case stringify (JObj fs) of None \<Rightarrow> [] | Some s \<Rightarrow> s)"

type_synonym byte = "8 word"

text \<open>\<open>new TextEncoder().encode\<close>: UTF-8, one byte below U+0080 and two from there.\<close>

definition utf8_char :: "char \<Rightarrow> byte list" where
  "utf8_char c =
     (let n = (of_char c :: nat) in
      if n < 128 then [of_nat n] else [of_nat (192 + n div 64), of_nat (128 + n mod 64)])"

definition textEncode :: "string \<Rightarrow> byte list" where
  "textEncode s = concat (map utf8_char s)"

text \<open>\<open>btoa\<close>: base64 with padding, three code units to four characters.\<close>

definition b64_char :: "nat \<Rightarrow> char" where
  "b64_char i =
     (if i < 26 then char_of (65 + i)
      else if i < 52 then char_of (71 + i)
      else if i < 62 then char_of (i - 4)
      else if i = 62 then CHR ''+'' else CHR ''/'')"

fun btoa_codes :: "nat list \<Rightarrow> string" where
  "btoa_codes [] = []"
| "btoa_codes [a] = [b64_char (a div 4), b64_char ((a mod 4) * 16), CHR ''='', CHR ''='']"
| "btoa_codes [a, b] =
     [b64_char (a div 4), b64_char ((a mod 4) * 16 + b div 16), b64_char ((b mod 16) * 4),
      CHR ''='']"
| "btoa_codes (a # b # c # r) =
     [b64_char (a div 4), b64_char ((a mod 4) * 16 + b div 16),
      b64_char ((b mod 16) * 4 + c div 64), b64_char (c mod 64)] @ btoa_codes r"

definition btoa :: "string \<Rightarrow> string" where
  "btoa s = btoa_codes (map of_char s)"

text \<open>\<open>String.prototype.replace\<close> with a global one-character pattern.\<close>

definition replace_char :: "char \<Rightarrow> string \<Rightarrow> string \<Rightarrow> string" where
  "replace_char c r s = concat (map (\<lambda>x. if x = c then r else [x]) s)"

text \<open>The argument of \<open>base64UrlEncode\<close> is a string or an \<open>ArrayBuffer\<close>.\<close>

datatype b64_input = Text string | Buffer "byte list"

definition base64UrlEncode :: "b64_input \<Rightarrow> string" where
  "base64UrlEncode data =
     (let base64 = (case data of
                      Text s \<Rightarrow> btoa s
                    | Buffer bs \<Rightarrow> btoa (map (\<lambda>b. char_of (unat b)) bs))
      in replace_char CHR ''='' [] (replace_char CHR ''/'' ''_'' (replace_char CHR ''+'' ''-'' base64)))"

text \<open>\<open>b.toString(16).padStart(2, "0")\<close> on the bytes of a digest.\<close>

fun to_hex :: "nat \<Rightarrow> string" where
  "to_hex n = (if n < 16 then [hex_digit n] else to_hex (n div 16) @ [hex_digit (n mod 16)])"

declare to_hex.simps [simp del]

definition padStart :: "nat \<Rightarrow> char \<Rightarrow> string \<Rightarrow> string" where
  "padStart n c s = replicate (n - length s) c @ s"

definition byte_hex :: "byte \<Rightarrow> string" where
  "byte_hex b = padStart 2 CHR ''0'' (to_hex (unat b))"

text \<open>\<open>String.prototype.includes\<close>.\<close>

fun str_includes :: "string \<Rightarrow> string \<Rightarrow> bool" where
  "str_includes [] n = (n = [])"
| "str_includes (c # cs) n = (prefix n (c # cs) \<or> str_includes cs n)"

text \<open>
  Method calls and property reads on an untyped value. They throw a \<open>TypeError\<close> where
  the value has no such method, or is \<open>null\<close> or \<open>undefined\<close>.
\<close>

definition js_includes :: "jsval \<Rightarrow> string \<Rightarrow> js_error + bool" where
  "js_includes v n =
     (case v of
        JStr s \<Rightarrow> Inr (str_includes s n)
      | JArr xs \<Rightarrow> Inr (JStr n \<in> set xs)
      | _ \<Rightarrow> Inl (Error ''includes is not a function''))"

definition js_join :: "jsval \<Rightarrow> string \<Rightarrow> js_error + string" where
  "js_join v sep =
     (case v of
        JArr xs \<Rightarrow>
          Inr (join sep (map (\<lambda>x. if x = JUndefined \<or> x = JNull then [] else toString x) xs))
      | _ \<Rightarrow> Inl (Error ''join is not a function''))"

definition js_member :: "jsval \<Rightarrow> string \<Rightarrow> js_error + jsval" where
  "js_member v k =
     (case v of
        JUndefined \<Rightarrow> Inl (Error ''Cannot read properties of undefined'')
      | JNull \<Rightarrow> Inl (Error ''Cannot read properties of null'')
      | JObj fs \<Rightarrow> Inr (get_prop fs k)
      | _ \<Rightarrow> Inr JUndefined)"

section \<open>The key-value store, the platform and the world\<close>

text \<open>
  \<open>KV_KEYS\<close>: the five keys of the app's store. Each key holds the kind of value the
  program writes under it: exported JWK objects, the key identifier string, the expiry in
  milliseconds, the hexadecimal checksum. \<open>None\<close> is a key that holds nothing:
  \<open>kv.app.get\<close> then yields a falsy value. Reads and writes of the store do not
  throw, and \<open>setMany\<close> is one update of the store. What the program logs with
  \<open>console.error\<close> is not part of the world.
\<close>

type_synonym jwk = "(string \<times> jsval) list"

record kv_store =
  privateKey :: "jwk option"
  publicKey :: "jwk option"
  keyId :: "string option"
  expiresAt :: "int option"
  configChecksum :: "string option"

definition empty_store :: kv_store where
  "empty_store = \<lparr>privateKey = None, publicKey = None, keyId = None,
                   expiresAt = None, configChecksum = None\<rparr>"

text \<open>Truthiness of what \<open>kv.app.get\<close> returns for a key object and for a string.\<close>

definition truthy_obj :: "jwk option \<Rightarrow> bool" where
  "truthy_obj v = (case v of None \<Rightarrow> False | Some fs \<Rightarrow> truthy (JObj fs))"

definition truthy_str :: "string option \<Rightarrow> bool" where
  "truthy_str v = (case v of None \<Rightarrow> False | Some s \<Rightarrow> truthy (JStr s))"

text \<open>A \<open>CryptoKey\<close> is an opaque handle of the platform.\<close>

datatype cryptokey = CryptoKey nat

record request =
  req_url :: string
  req_method :: string
  req_headers :: "(string \<times> string) list"
  req_form :: "(string \<times> string) list"
  req_json :: "jsval"

record response =
  status :: int
  body_text :: string

text \<open>\<open>response.ok\<close>: a status in the range 200 to 299.\<close>

definition ok :: "response \<Rightarrow> bool" where
  "ok r = (200 \<le> status r \<and> status r \<le> 299)"

text \<open>
  The platform is everything the program calls and does not define: the clock, the
  random source, Web Crypto, the URL parser, \<open>fetch\<close>, \<open>JSON.parse\<close> and \<open>Date\<close>. The
  answers that can change from one call to the next (clock, randomness, key generation,
  the network) are indexed by the number of such calls made so far, which the world
  counts in \<open>ticks\<close>; a call that can throw returns a sum, \<open>Inl\<close> the error.
  \<open>dateGetTime v\<close> is \<open>new Date(v).getTime()\<close> for a date that parses; the \<open>NaN\<close> of
  one that does not is outside the integers of this model.
\<close>

record platform =
  dateNow :: "nat \<Rightarrow> int"
  randomUUID :: "nat \<Rightarrow> string"
  generateKey :: "nat \<Rightarrow> js_error + cryptokey \<times> cryptokey"
  exportKey :: "cryptokey \<Rightarrow> js_error + jwk"
  importKey :: "jwk \<Rightarrow> js_error + cryptokey"
  sign :: "cryptokey \<Rightarrow> byte list \<Rightarrow> js_error + byte list"
  digest :: "byte list \<Rightarrow> byte list"
  urlHostname :: "string \<Rightarrow> js_error + string"
  fetch :: "nat \<Rightarrow> request \<Rightarrow> js_error + response"
  jsonParse :: "string \<Rightarrow> js_error + jsval"
  dateGetTime :: "jsval \<Rightarrow> int"

text \<open>
  The world a handler runs in: the store, the remote calls made so far (oldest first),
  the number of \<open>lifecycle.sync()\<close> requests, and the count of platform calls.
\<close>

record world =
  store :: kv_store
  calls :: "request list"
  syncs :: nat
  ticks :: nat

definition tick :: "world \<Rightarrow> world" where
  "tick w = w\<lparr>ticks := Suc (ticks w)\<rparr>"

section \<open>Constants\<close>

definition REFRESH_BUFFER_SECONDS :: int where
  "REFRESH_BUFFER_SECONDS = 300"

definition DEFAULT_DURATION_SECONDS :: int where
  "DEFAULT_DURATION_SECONDS = 3600"

definition ALGORITHM :: string where
  "ALGORITHM = ''RS256''"

section \<open>Key material\<close>

text \<open>
  \<open>ensureKeyPair\<close>: reads the three key components in one \<open>getMany\<close>; when one is
  falsy it generates a pair, exports both halves, draws a key id and writes the three in
  one \<open>setMany\<close>. A throw of the platform leaves before the write.
\<close>

definition ensureKeyPair :: "platform \<Rightarrow> world \<Rightarrow> (js_error + unit) \<times> world" where
  "ensureKeyPair P w =
     (let st = store w in
      if \<not> truthy_obj (privateKey st) \<or> \<not> truthy_obj (publicKey st) \<or> \<not> truthy_str (keyId st)
      then
        (case generateKey P (ticks w) of
           Inl e \<Rightarrow> (Inl e, tick w)
         | Inr (priv, pub) \<Rightarrow>
             (case exportKey P priv of
                Inl e \<Rightarrow> (Inl e, tick w)
              | Inr privateKeyJwk \<Rightarrow>
                  (case exportKey P pub of
                     Inl e \<Rightarrow> (Inl e, tick w)
                   | Inr publicKeyJwk \<Rightarrow>
                       (let w1 = tick w;
                            newKeyId = randomUUID P (ticks w1);
                            w2 = tick w1
                        in (Inr (),
                            w2\<lparr>store := st\<lparr>privateKey := Some privateKeyJwk,
                                             publicKey := Some publicKeyJwk,
                                             keyId := Some newKeyId\<rparr>\<rparr>)))))
      else (Inr (), w))"

section \<open>The JWKS endpoint\<close>

record http_response =
  statusCode :: int
  headers :: "(string \<times> string) list"
  body :: jsval

definition handleJwks :: "world \<Rightarrow> js_error + http_response" where
  "handleJwks w =
     (case (publicKey (store w), keyId (store w)) of
        (Some publicKeyJwk, Some kid) \<Rightarrow>
          if \<not> truthy (JObj publicKeyJwk) \<or> \<not> truthy (JStr kid)
          then Inl (Error ''Public key or key ID not found'')
          else
            (let jwks = JObj [(''keys'',
                   JArr [JObj [(''kid'', JStr kid),
                               (''kty'', JStr ''RSA''),
                               (''n'', get_prop publicKeyJwk ''n''),
                               (''e'', get_prop publicKeyJwk ''e'')]])]
             in Inr \<lparr>statusCode = 200,
                     headers = [(''Content-Type'', ''application/json'')],
                     body = jwks\<rparr>)
      | _ \<Rightarrow> Inl (Error ''Public key or key ID not found''))"

section \<open>The scheduled trigger\<close>

text \<open>
  \<open>onTrigger\<close> of the schedule \<open>refresh-credentials\<close>: it reads the stored expiry and
  asks the host for a lifecycle sync when the expiry is falsy or below the threshold.
  The clock is read only on the second path.
\<close>

definition onTrigger :: "platform \<Rightarrow> world \<Rightarrow> world" where
  "onTrigger P w =
     (case expiresAt (store w) of
        None \<Rightarrow> w\<lparr>syncs := Suc (syncs w)\<rparr>
      | Some e \<Rightarrow>
          if \<not> truthy (JNum e) then w\<lparr>syncs := Suc (syncs w)\<rparr>
          else
            (let now = dateNow P (ticks w);
                 w1 = tick w;
                 refreshThreshold = now + REFRESH_BUFFER_SECONDS * 1000
             in if e < refreshThreshold then w1\<lparr>syncs := Suc (syncs w1)\<rparr> else w1))"

section \<open>The configuration checksum and the refresh decision\<close>

text \<open>
  \<open>generateChecksum\<close>: the SHA-256 digest (the platform's) of the UTF-8 bytes of
  \<open>JSON.stringify(obj)\<close>, in lowercase hexadecimal. Where \<open>JSON.stringify\<close> gives
  \<open>undefined\<close> the encoder gets no input and encodes the empty string.
\<close>

definition generateChecksum :: "platform \<Rightarrow> jsval \<Rightarrow> string" where
  "generateChecksum P obj =
     (let configString = (case stringify obj of None \<Rightarrow> [] | Some s \<Rightarrow> s);
          buffer = textEncode configString;
          hashBuffer = digest P buffer
      in concat (map byte_hex hashBuffer))"

text \<open>The configuration is the object \<open>input.app.config\<close>.\<close>

type_synonym config = "(string \<times> jsval) list"

definition shouldRefreshCredentials :: "platform \<Rightarrow> config \<Rightarrow> world \<Rightarrow> bool \<times> world" where
  "shouldRefreshCredentials P config w =
     (let previousChecksum = configChecksum (store w);
          currentChecksum = generateChecksum P (JObj config);
          configChanged =
            (case previousChecksum of
               None \<Rightarrow> True
             | Some c \<Rightarrow> \<not> truthy (JStr c) \<or> currentChecksum \<noteq> c);
          now = dateNow P (ticks w);
          w1 = tick w;
          refreshThreshold = now + REFRESH_BUFFER_SECONDS * 1000;
          needsRefresh =
            (case expiresAt (store w) of
               None \<Rightarrow> True
             | Some e \<Rightarrow> \<not> truthy (JNum e) \<or> e < refreshThreshold)
      in (configChanged \<or> needsRefresh, w1))"

section \<open>The self-issued identity token\<close>

definition createOidcToken :: "platform \<Rightarrow> string \<Rightarrow> world \<Rightarrow> (js_error + string) \<times> world" where
  "createOidcToken P appUrl w =
     (case (privateKey (store w), keyId (store w)) of
        (Some privateKeyJwk, Some kid) \<Rightarrow>
          if \<not> truthy (JObj privateKeyJwk) \<or> \<not> truthy (JStr kid)
          then (Inl (Error ''Private key or key ID not found''), w)
          else
            (case importKey P privateKeyJwk of
               Inl e \<Rightarrow> (Inl e, w)
             | Inr key \<Rightarrow>
                 (let header = [(''alg'', JStr ALGORITHM),
                                (''typ'', JStr ''JWT''),
                                (''kid'', JStr kid)]
                  in case urlHostname P appUrl of
                       Inl e \<Rightarrow> (Inl e, w)
                     | Inr appHostname \<Rightarrow>
                         (let now = dateNow P (ticks w) div 1000;
                              w1 = tick w;
                              jti = randomUUID P (ticks w1);
                              w2 = tick w1;
                              payload = [(''iss'', JStr appUrl),
                                         (''sub'', JStr appHostname),
                                         (''aud'', JStr appUrl),
                                         (''exp'', JNum (now + 300)),
                                         (''iat'', JNum now),
                                         (''nbf'', JNum now),
                                         (''jti'', JStr jti)];
                              encodedHeader = base64UrlEncode (Text (stringify_obj header));
                              encodedPayload = base64UrlEncode (Text (stringify_obj payload));
                              signatureData = encodedHeader @ ''.'' @ encodedPayload
                          in case sign P key (textEncode signatureData) of
                               Inl e \<Rightarrow> (Inl e, w2)
                             | Inr signature \<Rightarrow>
                                 (Inr (signatureData @ ''.'' @ base64UrlEncode (Buffer signature)),
                                  w2))))
      | _ \<Rightarrow> (Inl (Error ''Private key or key ID not found''), w))"

section \<open>The two-step exchange\<close>

record credentials =
  accessToken :: jsval
  cred_expiresAt :: int

definition default_scopes :: jsval where
  "default_scopes = JArr [JStr ''https://www.googleapis.com/auth/cloud-platform'']"

text \<open>\<open>a || b\<close>.\<close>

definition js_or :: "jsval \<Rightarrow> jsval \<Rightarrow> jsval" where
  "js_or a b = (if truthy a then a else b)"

text \<open>
  The token-exchange request and the impersonation request, as the program builds them.
  The form of the first is the list given to \<open>URLSearchParams\<close>; the body of the second is
  the object given to \<open>JSON.stringify\<close>.
\<close>

definition sts_request :: "string \<Rightarrow> string \<Rightarrow> string \<Rightarrow> request" where
  "sts_request audience oidcToken scope =
     \<lparr>req_url = ''https://sts.googleapis.com/v1/token'',
      req_method = ''POST'',
      req_headers = [(''Content-Type'', ''application/x-www-form-urlencoded'')],
      req_form = [(''grant_type'', ''urn:ietf:params:oauth:grant-type:token-exchange''),
                  (''audience'', audience),
                  (''subject_token_type'', ''urn:ietf:params:oauth:token-type:jwt''),
                  (''requested_token_type'', ''urn:ietf:params:oauth:token-type:access_token''),
                  (''subject_token'', oidcToken),
                  (''scope'', scope)],
      req_json = JUndefined\<rparr>"

definition impersonate_request :: "jsval \<Rightarrow> jsval \<Rightarrow> jsval \<Rightarrow> jsval \<Rightarrow> request" where
  "impersonate_request email bearer scopes duration =
     \<lparr>req_url = ''https://iamcredentials.googleapis.com/v1/projects/-/serviceAccounts/''
                 @ toString email @ '':generateAccessToken'',
      req_method = ''POST'',
      req_headers = [(''Content-Type'', ''application/json''),
                     (''Authorization'', ''Bearer '' @ toString bearer)],
      req_form = [],
      req_json = JObj [(''scope'', scopes),
                       (''lifetime'', JStr (toString duration @ ''s''))]\<rparr>"

text \<open>\<open>fetch\<close>: the call is recorded, then the platform answers or rejects.\<close>

definition do_fetch :: "platform \<Rightarrow> request \<Rightarrow> world \<Rightarrow> (js_error + response) \<times> world" where
  "do_fetch P r w = (fetch P (ticks w) r, (tick w)\<lparr>calls := calls w @ [r]\<rparr>)"

text \<open>
  \<open>generateCredentials\<close>, in the order of its statements: the token exchange (from the
  identity token to the parsed STS answer), the impersonation (from the STS answer to
  the parsed result), and the write of the refresh state with the returned credential.
  Its \<open>catch\<close> logs and throws the error again, so an \<open>Inl\<close> leaves the function as it
  is, with the world as it was at the throw.
\<close>

definition exchange_token ::
    "platform \<Rightarrow> config \<Rightarrow> string \<Rightarrow> world \<Rightarrow> (js_error + jsval) \<times> world" where
  "exchange_token P config oidcToken w =
     (let workloadProviderResourceName =
            ''//iam.googleapis.com/'' @ toString (get_prop config ''workloadIdentityProvider'')
      in case js_join (js_or (get_prop config ''scopes'') default_scopes) '' '' of
           Inl e \<Rightarrow> (Inl e, w)
         | Inr scope \<Rightarrow>
             (case do_fetch P (sts_request workloadProviderResourceName oidcToken scope) w of
                (Inl e, w1) \<Rightarrow> (Inl e, w1)
              | (Inr response, w1) \<Rightarrow>
                  if \<not> ok response
                  then (Inl (Error (''GCP STS token exchange failed: ''
                             @ number_to_string (status response) @ '' ''
                             @ body_text response)), w1)
                  else (jsonParse P (body_text response), w1)))"

definition impersonate ::
    "platform \<Rightarrow> config \<Rightarrow> jsval \<Rightarrow> world \<Rightarrow> (js_error + jsval) \<times> world" where
  "impersonate P config stsToken w =
     (case js_member stsToken ''access_token'' of
        Inl e \<Rightarrow> (Inl e, w)
      | Inr bearer \<Rightarrow>
          (case do_fetch P
                  (impersonate_request
                     (get_prop config ''serviceAccountEmail'') bearer
                     (js_or (get_prop config ''scopes'') default_scopes)
                     (js_or (get_prop config ''durationSeconds'')
                            (JNum DEFAULT_DURATION_SECONDS))) w of
             (Inl e, w1) \<Rightarrow> (Inl e, w1)
           | (Inr impersonateResponse, w1) \<Rightarrow>
               if \<not> ok impersonateResponse
               then (Inl (Error (''Service account impersonation failed: ''
                          @ number_to_string (status impersonateResponse) @ '' ''
                          @ body_text impersonateResponse)), w1)
               else (jsonParse P (body_text impersonateResponse), w1)))"

definition store_credentials ::
    "platform \<Rightarrow> config \<Rightarrow> jsval \<Rightarrow> world \<Rightarrow> (js_error + credentials) \<times> world" where
  "store_credentials P config impersonateResult w =
     (case js_member impersonateResult ''expireTime'' of
        Inl e \<Rightarrow> (Inl e, w)
      | Inr expireTime \<Rightarrow>
          (let e = dateGetTime P expireTime;
               checksum = generateChecksum P (JObj config);
               w1 = w\<lparr>store := (store w)\<lparr>expiresAt := Some e,
                                          configChecksum := Some checksum\<rparr>\<rparr>
           in case js_member impersonateResult ''accessToken'' of
                Inl err \<Rightarrow> (Inl err, w1)
              | Inr token \<Rightarrow> (Inr \<lparr>accessToken = token, cred_expiresAt = e\<rparr>, w1)))"

definition generateCredentials ::
    "platform \<Rightarrow> config \<Rightarrow> string \<Rightarrow> world \<Rightarrow> (js_error + credentials) \<times> world" where
  "generateCredentials P config appUrl w =
     (case createOidcToken P appUrl w of
        (Inl e, w1) \<Rightarrow> (Inl e, w1)
      | (Inr oidcToken, w1) \<Rightarrow>
          (case exchange_token P config oidcToken w1 of
             (Inl e, w2) \<Rightarrow> (Inl e, w2)
           | (Inr stsToken, w2) \<Rightarrow>
               (case impersonate P config stsToken w2 of
                  (Inl e, w3) \<Rightarrow> (Inl e, w3)
                | (Inr impersonateResult, w3) \<Rightarrow>
                    store_credentials P config impersonateResult w3)))"

section \<open>The lifecycle sync\<close>

record sync_output =
  newStatus :: string
  customStatusDescription :: "string option"
  signalUpdates :: "credentials option"

definition sync_failed :: "js_error \<Rightarrow> sync_output" where
  "sync_failed e =
     \<lparr>newStatus = ''failed'',
      customStatusDescription = Some (''Workload Identity sync failed: '' @ message e),
      signalUpdates = None\<rparr>"

definition invalid_provider_format :: string where
  "invalid_provider_format =
     ''Invalid Workload Identity Provider format. Must include /providers/PROVIDER_ID. Expected: projects/PROJECT_NUMBER/locations/global/workloadIdentityPools/POOL_ID/providers/PROVIDER_ID''"

text \<open>
  \<open>onSync\<close>. The whole body is in a \<open>try\<close>; its \<open>catch\<close> turns any throw into the
  status \<open>failed\<close> with the error's message.
\<close>

definition onSync :: "platform \<Rightarrow> config \<Rightarrow> string \<Rightarrow> world \<Rightarrow> sync_output \<times> world" where
  "onSync P config appUrl w =
     (if \<not> truthy (get_prop config ''projectId'')
      then (\<lparr>newStatus = ''failed'',
             customStatusDescription = Some ''Missing required Project ID'',
             signalUpdates = None\<rparr>, w)
      else
        (case ensureKeyPair P w of
           (Inl e, w1) \<Rightarrow> (sync_failed e, w1)
         | (Inr u, w1) \<Rightarrow>
             if \<not> truthy (get_prop config ''serviceAccountEmail'')
                \<or> \<not> truthy (get_prop config ''workloadIdentityProvider'')
             then (\<lparr>newStatus = ''in_progress'',
                    customStatusDescription = Some ''Continue setup'',
                    signalUpdates = None\<rparr>, w1)
             else
               (case js_includes (get_prop config ''workloadIdentityProvider'') ''/providers/'' of
                  Inl e \<Rightarrow> (sync_failed e, w1)
                | Inr has_provider \<Rightarrow>
                    if \<not> has_provider
                    then (\<lparr>newStatus = ''failed'',
                           customStatusDescription = Some invalid_provider_format,
                           signalUpdates = None\<rparr>, w1)
                    else
                      (case shouldRefreshCredentials P config w1 of
                         (needsRefresh, w2) \<Rightarrow>
                           if \<not> needsRefresh
                           then (\<lparr>newStatus = ''ready'',
                                  customStatusDescription = None,
                                  signalUpdates = None\<rparr>, w2)
                           else
                             (case generateCredentials P config appUrl w2 of
                                (Inl e, w3) \<Rightarrow> (sync_failed e, w3)
                              | (Inr newCredentials, w3) \<Rightarrow>
                                  (\<lparr>newStatus = ''ready'',
                                    customStatusDescription = None,
                                    signalUpdates = Some newCredentials\<rparr>, w3))))))"

section \<open>Sample data\<close>

text \<open>
  A platform, a world and a configuration on which the theorems below are run: a fixed
  key pair, identifiers that count the platform calls, a digest of 32 bytes, and remote
  endpoints that answer 200.
\<close>

definition demo_private_jwk :: jwk where
  "demo_private_jwk =
     [(''kty'', JStr ''RSA''), (''n'', JStr ''sXchDaQebHnPiGvy''), (''e'', JStr ''AQAB''),
      (''d'', JStr ''VFCWOqXr8nvZNyaa''), (''p'', JStr ''5yMq''), (''q'', JStr ''xGOr'')]"

definition demo_public_jwk :: jwk where
  "demo_public_jwk =
     [(''kty'', JStr ''RSA''), (''n'', JStr ''sXchDaQebHnPiGvy''), (''e'', JStr ''AQAB'')]"

definition demo_platform :: platform where
  "demo_platform =
     \<lparr>dateNow = (\<lambda>t. 1700000000000 + int t),
      randomUUID = (\<lambda>t. ''uuid-'' @ nat_to_string t),
      generateKey = (\<lambda>t. Inr (CryptoKey 1, CryptoKey 2)),
      exportKey = (\<lambda>k. if k = CryptoKey 1 then Inr demo_private_jwk else Inr demo_public_jwk),
      importKey = (\<lambda>j. Inr (CryptoKey 1)),
      sign = (\<lambda>k bs. Inr [222, 173, 190, 239]),
      digest = (\<lambda>bs. take 32 (bs @ replicate 32 0)),
      urlHostname = (\<lambda>u. if prefix ''https://'' u then Inr (drop 8 u)
                           else Inl (Error ''Invalid URL'')),
      fetch = (\<lambda>t r. if req_form r = [] then Inr \<lparr>status = 200, body_text = ''iam''\<rparr>
                      else Inr \<lparr>status = 200, body_text = ''sts''\<rparr>),
      jsonParse = (\<lambda>s. if s = ''sts'' then Inr (JObj [(''access_token'', JStr ''federated'')])
                        else if s = ''iam''
                        then Inr (JObj [(''accessToken'', JStr ''ya29.token''),
                                        (''expireTime'', JStr ''2023-11-14T23:13:20Z'')])
                        else Inl (Error ''Unexpected token'')),
      dateGetTime = (\<lambda>v. 1700003600000)\<rparr>"

definition demo_world :: world where
  "demo_world = \<lparr>store = empty_store, calls = [], syncs = 0, ticks = 0\<rparr>"

definition demo_config :: config where
  "demo_config =
     [(''projectId'', JStr ''p1''),
      (''serviceAccountEmail'', JStr ''sa@p1.iam.gserviceaccount.com''),
      (''workloadIdentityProvider'',
         JStr ''projects/123/locations/global/workloadIdentityPools/pool1/providers/flows''),
      (''scopes'', JArr [JStr ''https://www.googleapis.com/auth/cloud-platform'']),
      (''durationSeconds'', JNum 3600)]"

text \<open>The world with a given expiry in the store.\<close>

definition with_expiry :: "int \<Rightarrow> world \<Rightarrow> world" where
  "with_expiry e w = w\<lparr>store := (store w)\<lparr>expiresAt := Some e\<rparr>\<rparr>"

section \<open>Key material: idempotence and completeness\<close>

text \<open>The three outcomes of \<open>ensureKeyPair\<close>: a throw before the write, nothing to do, or
  one write of all three components.\<close>

lemma ensureKeyPair_cases:
  "(\<exists>e. ensureKeyPair P w = (Inl e, tick w)) \<or>
   ensureKeyPair P w = (Inr (), w) \<or>
   (\<exists>a b c. ensureKeyPair P w =
      (Inr (), (tick (tick w))\<lparr>store := (store w)\<lparr>privateKey := Some a, publicKey := Some b,
                                                 keyId := Some c\<rparr>\<rparr>))"
  by (auto simp: ensureKeyPair_def Let_def split: sum.splits prod.splits)

lemmas eval_chars =
  char_of_def bit_0 digit_char_def hex_digit_def b64_char_def nat_to_string.simps to_hex.simps

lemma ensureKeyPair_returns_keys:
  assumes "ensureKeyPair P w = (Inr u, w')" and "\<forall>t. randomUUID P t \<noteq> []"
  shows "\<exists>a b c. privateKey (store w') = Some a \<and> publicKey (store w') = Some b \<and>
                 keyId (store w') = Some c \<and> c \<noteq> []"
  using assms
  by (auto simp: ensureKeyPair_def Let_def tick_def truthy_obj_def truthy_str_def
           split: sum.splits prod.splits if_splits option.splits)

lemma ensureKeyPair_keeps_calls: "calls (snd (ensureKeyPair P w)) = calls w"
  using ensureKeyPair_cases [of P w] by (auto simp: tick_def)

lemma demo_uuid_nonempty: "\<forall>t. randomUUID demo_platform t \<noteq> []"
  by (simp add: demo_platform_def)

lemma demo_ensureKeyPair:
  "ensureKeyPair demo_platform demo_world =
     (Inr (), \<lparr>store = \<lparr>privateKey = Some demo_private_jwk, publicKey = Some demo_public_jwk,
                        keyId = Some ''uuid-1'', expiresAt = None, configChecksum = None\<rparr>,
               calls = [], syncs = 0, ticks = 2\<rparr>)"
  by (simp add: ensureKeyPair_def demo_platform_def demo_world_def empty_store_def Let_def
        tick_def truthy_obj_def truthy_str_def eval_chars)

text \<open>
  Claim C5. \<open>ensureKeyPair\<close> is idempotent: after a call that returned, a second call,
  whatever the platform would generate then, returns too and leaves the world as the first
  call left it: the same private key, public key and key id, and no platform call made.
  The key id of the platform is a UUID, never the empty string.
\<close>

theorem ensureKeyPair_idempotent:
  assumes "ensureKeyPair P w = (Inr (), w')" and "\<forall>t. randomUUID P t \<noteq> []"
  shows "ensureKeyPair P' w' = (Inr (), w')"
  using assms
  by (auto simp: ensureKeyPair_def Let_def tick_def truthy_obj_def truthy_str_def
           split: sum.splits prod.splits if_splits option.splits)

theorem ensureKeyPair_idempotent_witness:
  "fst (ensureKeyPair demo_platform demo_world) = Inr () \<and>
   keyId (store (snd (ensureKeyPair demo_platform demo_world))) = Some ''uuid-1'' \<and>
   ensureKeyPair (demo_platform\<lparr>randomUUID := (\<lambda>t. ''other'')\<rparr>)
       (snd (ensureKeyPair demo_platform demo_world))
     = (Inr (), snd (ensureKeyPair demo_platform demo_world))"
  using ensureKeyPair_idempotent [OF demo_ensureKeyPair demo_uuid_nonempty,
          of "demo_platform\<lparr>randomUUID := (\<lambda>t. ''other'')\<rparr>"]
  by (simp add: demo_ensureKeyPair)

text \<open>A store is complete when the three key components are all there or all missing.\<close>

definition key_complete :: "kv_store \<Rightarrow> bool" where
  "key_complete st =
     ((privateKey st \<noteq> None \<and> publicKey st \<noteq> None \<and> keyId st \<noteq> None) \<or>
      (privateKey st = None \<and> publicKey st = None \<and> keyId st = None))"

text \<open>The worlds reached from an empty store by calls of \<open>ensureKeyPair\<close>, on any platform.\<close>

inductive_set key_states :: "world set" where
  start: "store w = empty_store \<Longrightarrow> w \<in> key_states"
| step: "w \<in> key_states \<Longrightarrow> snd (ensureKeyPair P w) \<in> key_states"

text \<open>
  Claim C6. With the batched write taken as one update of the store, every world reached
  through \<open>ensureKeyPair\<close> has a complete store; and from any world at all, a call either
  leaves the store as it is or writes the three components together.
\<close>

theorem key_pair_complete:
  "(w \<in> key_states \<longrightarrow> key_complete (store w)) \<and>
   (store (snd (ensureKeyPair P v)) = store v \<or>
    (\<exists>a b c. store (snd (ensureKeyPair P v)) =
       (store v)\<lparr>privateKey := Some a, publicKey := Some b, keyId := Some c\<rparr>))"
proof
  show "w \<in> key_states \<longrightarrow> key_complete (store w)"
  proof
    assume "w \<in> key_states"
    then show "key_complete (store w)"
    proof (induction rule: key_states.induct)
      case (start w)
      then show ?case by (simp add: key_complete_def empty_store_def)
    next
      case (step w Q)
      then show ?case
        using ensureKeyPair_cases [of Q w] by (auto simp: key_complete_def tick_def)
    qed
  qed
next
  show "store (snd (ensureKeyPair P v)) = store v \<or>
    (\<exists>a b c. store (snd (ensureKeyPair P v)) =
       (store v)\<lparr>privateKey := Some a, publicKey := Some b, keyId := Some c\<rparr>)"
    using ensureKeyPair_cases [of P v] by (elim disjE exE) (simp_all add: tick_def, blast)
qed

theorem key_pair_complete_witness:
  "snd (ensureKeyPair demo_platform demo_world) \<in> key_states \<and>
   key_complete (store (snd (ensureKeyPair demo_platform demo_world))) \<and>
   privateKey (store (snd (ensureKeyPair demo_platform demo_world))) = Some demo_private_jwk"
proof -
  have "demo_world \<in> key_states"
    by (rule key_states.start) (simp add: demo_world_def)
  then have r: "snd (ensureKeyPair demo_platform demo_world) \<in> key_states"
    by (rule key_states.step)
  with key_pair_complete [of "snd (ensureKeyPair demo_platform demo_world)"]
  show ?thesis by (simp add: demo_ensureKeyPair)
qed

section \<open>The scheduled trigger: when it asks for a sync\<close>

text \<open>
  Claim C8. With the clock past the epoch, \<open>onTrigger\<close> asks for a lifecycle sync exactly
  when the stored expiry is missing or below now + 300 seconds; otherwise it asks for
  nothing. In both cases it writes nothing to the store and makes no remote call.
\<close>

theorem onTrigger_sync_iff:
  assumes "0 \<le> dateNow P (ticks w)"
  shows "(syncs (onTrigger P w) = Suc (syncs w)) =
           (expiresAt (store w) = None \<or>
            (\<exists>e. expiresAt (store w) = Some e \<and> e < dateNow P (ticks w) + 300 * 1000)) \<and>
         (syncs (onTrigger P w) = Suc (syncs w) \<or> syncs (onTrigger P w) = syncs w) \<and>
         store (onTrigger P w) = store w \<and> calls (onTrigger P w) = calls w"
  using assms
  by (auto simp: onTrigger_def Let_def tick_def REFRESH_BUFFER_SECONDS_def split: option.splits)

text \<open>The two scenarios: an expiry 4 minutes away, and one 10 minutes away.\<close>

theorem onTrigger_sync_iff_witness:
  "0 \<le> dateNow demo_platform (ticks demo_world) \<and>
   syncs (onTrigger demo_platform (with_expiry (1700000000000 + 4 * 60 * 1000) demo_world)) = 1 \<and>
   syncs (onTrigger demo_platform (with_expiry (1700000000000 + 10 * 60 * 1000) demo_world)) = 0 \<and>
   syncs (onTrigger demo_platform demo_world) = 1 \<and>
   calls (onTrigger demo_platform (with_expiry (1700000000000 + 4 * 60 * 1000) demo_world)) = []"
proof -
  have h: "0 \<le> dateNow demo_platform (ticks (with_expiry e demo_world))" for e
    by (simp add: demo_platform_def)
  have t: "dateNow demo_platform (ticks (with_expiry e demo_world)) = 1700000000000" for e
    by (simp add: demo_platform_def demo_world_def with_expiry_def)
  have s: "syncs (with_expiry e demo_world) = 0" "calls (with_expiry e demo_world) = []"
          "expiresAt (store (with_expiry e demo_world)) = Some e" for e
    by (simp_all add: demo_world_def with_expiry_def)
  have n: "0 \<le> dateNow demo_platform (ticks demo_world)"
    by (simp add: demo_platform_def)
  have d: "expiresAt (store demo_world) = None" "syncs demo_world = 0"
    by (simp_all add: demo_world_def empty_store_def)
  show ?thesis
    using onTrigger_sync_iff [OF h, of "1700000000000 + 4 * 60 * 1000"]
          onTrigger_sync_iff [OF h, of "1700000000000 + 10 * 60 * 1000"]
          onTrigger_sync_iff [OF n]
    by (auto simp: t s n d)
qed

section \<open>The JWKS endpoint: public fields only\<close>

text \<open>The names of the private components of an RSA key in JWK form.\<close>

definition private_jwk_fields :: "string set" where
  "private_jwk_fields = {''d'', ''p'', ''q'', ''dp'', ''dq'', ''qi''}"

text \<open>The key objects of a key set \<open>{keys: [...]}\<close>, each as its list of properties.\<close>

fun jwks_keys :: "jsval \<Rightarrow> (string \<times> jsval) list list" where
  "jwks_keys (JObj [(k, JArr xs)]) =
     (if k = ''keys'' then concat (map (\<lambda>x. case x of JObj fs \<Rightarrow> [fs] | _ \<Rightarrow> []) xs) else [])"
| "jwks_keys v = []"

text \<open>
  Claim C9. With a public key and a non-empty key id in the store, \<open>handleJwks\<close> answers 200
  with the body \<open>{keys: [{kid, kty: "RSA", n, e}]}\<close>, \<open>n\<close> and \<open>e\<close> read from the stored
  public key: the one key object has exactly these four properties, none of them a private
  component, and the answer does not depend on the stored private key. With the public key
  or the key id missing it throws.
\<close>

theorem handleJwks_public_only:
  "(publicKey (store w) = Some pk \<and> keyId (store w) = Some kid \<and> kid \<noteq> [] \<longrightarrow>
      handleJwks w =
        Inr \<lparr>statusCode = 200,
             headers = [(''Content-Type'', ''application/json'')],
             body = JObj [(''keys'', JArr [JObj [(''kid'', JStr kid), (''kty'', JStr ''RSA''),
                                                 (''n'', get_prop pk ''n''),
                                                 (''e'', get_prop pk ''e'')]])]\<rparr>) \<and>
   (\<forall>r. handleJwks w = Inr r \<longrightarrow>
      statusCode r = 200 \<and>
      (\<forall>fs \<in> set (jwks_keys (body r)).
         map fst fs = [''kid'', ''kty'', ''n'', ''e''] \<and> set (map fst fs) \<inter> private_jwk_fields = {})) \<and>
   (publicKey (store w) = None \<or> keyId (store w) = None \<longrightarrow>
      handleJwks w = Inl (Error ''Public key or key ID not found'')) \<and>
   handleJwks (w\<lparr>store := (store w)\<lparr>privateKey := x\<rparr>\<rparr>) = handleJwks w"
  by (auto simp: handleJwks_def Let_def private_jwk_fields_def split: option.splits)

theorem handleJwks_public_only_witness:
  "handleJwks (snd (ensureKeyPair demo_platform demo_world)) =
     Inr \<lparr>statusCode = 200,
          headers = [(''Content-Type'', ''application/json'')],
          body = JObj [(''keys'', JArr [JObj [(''kid'', JStr ''uuid-1''), (''kty'', JStr ''RSA''),
                                              (''n'', JStr ''sXchDaQebHnPiGvy''),
                                              (''e'', JStr ''AQAB'')]])]\<rparr> \<and>
   handleJwks demo_world = Inl (Error ''Public key or key ID not found'')"
proof -
  let ?w = "snd (ensureKeyPair demo_platform demo_world)"
  have a: "publicKey (store ?w) = Some demo_public_jwk \<and> keyId (store ?w) = Some ''uuid-1'' \<and>
           ''uuid-1'' \<noteq> []"
    by (simp add: demo_ensureKeyPair)
  have b: "publicKey (store demo_world) = None \<or> keyId (store demo_world) = None"
    by (simp add: demo_world_def empty_store_def)
  show ?thesis
    using handleJwks_public_only [of ?w demo_public_jwk "''uuid-1''"] a
          handleJwks_public_only [of demo_world] b
    by (simp add: get_prop_def demo_public_jwk_def)
qed

section \<open>The refresh decision: its truth table\<close>

lemma to_hex_nonempty: "to_hex n \<noteq> []"
  by (subst to_hex.simps) simp

lemma byte_hex_nonempty: "byte_hex b \<noteq> []"
  by (simp add: byte_hex_def padStart_def to_hex_nonempty)

lemma generateChecksum_nonempty:
  "digest P (textEncode (case stringify obj of None \<Rightarrow> [] | Some s \<Rightarrow> s)) \<noteq> []
   \<Longrightarrow> generateChecksum P obj \<noteq> []"
  by (cases "digest P (textEncode (case stringify obj of None \<Rightarrow> [] | Some s \<Rightarrow> s))")
     (simp_all add: generateChecksum_def Let_def byte_hex_nonempty)

text \<open>
  Claim C1. \<open>shouldRefreshCredentials\<close> answers true exactly when no expiry is stored, or
  the stored expiry is below now + 300 seconds, or the stored checksum is not the checksum
  of the current configuration (none stored counts as different). The clock is past the
  epoch and a SHA-256 digest has 32 bytes.
\<close>

theorem shouldRefreshCredentials_iff:
  assumes "0 \<le> dateNow P (ticks w)" and "\<forall>bs. length (digest P bs) = 32"
  shows "fst (shouldRefreshCredentials P config w) =
           (expiresAt (store w) = None \<or>
            (\<exists>e. expiresAt (store w) = Some e \<and> e < dateNow P (ticks w) + 300 * 1000) \<or>
            configChecksum (store w) \<noteq> Some (generateChecksum P (JObj config)))"
proof -
  have "digest P bs \<noteq> []" for bs
    using assms(2) by (metis length_0_conv zero_neq_numeral)
  then have ne: "generateChecksum P (JObj config) \<noteq> []"
    by (intro generateChecksum_nonempty)
  show ?thesis
    using assms(1) ne
    by (auto simp: shouldRefreshCredentials_def Let_def REFRESH_BUFFER_SECONDS_def
             split: option.splits)
qed

text \<open>The world with a given refresh state in the store.\<close>

definition with_refresh_state :: "int \<Rightarrow> string \<Rightarrow> world \<Rightarrow> world" where
  "with_refresh_state e c w = w\<lparr>store := (store w)\<lparr>expiresAt := Some e, configChecksum := Some c\<rparr>\<rparr>"

lemma demo_digest_length: "\<forall>bs. length (digest demo_platform bs) = 32"
  by (auto simp: demo_platform_def)

text \<open>
  Nothing stored; an expiry two hours away with the current checksum; an expiry four
  minutes away with the current checksum; an expiry two hours away with another checksum.
\<close>

theorem shouldRefreshCredentials_iff_witness:
  "fst (shouldRefreshCredentials demo_platform demo_config demo_world) \<and>
   \<not> fst (shouldRefreshCredentials demo_platform demo_config
           (with_refresh_state (1700000000000 + 7200000)
              (generateChecksum demo_platform (JObj demo_config)) demo_world)) \<and>
   fst (shouldRefreshCredentials demo_platform demo_config
           (with_refresh_state (1700000000000 + 240000)
              (generateChecksum demo_platform (JObj demo_config)) demo_world)) \<and>
   fst (shouldRefreshCredentials demo_platform demo_config
           (with_refresh_state (1700000000000 + 7200000)
              (generateChecksum demo_platform (JObj [])) demo_world))"
proof -
  have c: "0 \<le> dateNow demo_platform (ticks w)" for w
    by (simp add: demo_platform_def)
  have t: "dateNow demo_platform (ticks (with_refresh_state e s demo_world)) = 1700000000000"
    for e s
    by (simp add: demo_platform_def demo_world_def with_refresh_state_def)
  have s: "expiresAt (store (with_refresh_state e s demo_world)) = Some e"
          "configChecksum (store (with_refresh_state e s demo_world)) = Some s" for e s
    by (simp_all add: with_refresh_state_def)
  have d: "expiresAt (store demo_world) = None"
    by (simp add: demo_world_def empty_store_def)
  have ne: "generateChecksum demo_platform (JObj []) \<noteq> generateChecksum demo_platform (JObj demo_config)"
    by (simp add: generateChecksum_def demo_platform_def demo_config_def Let_def textEncode_def
          utf8_char_def json_quote_def json_escape_char_def byte_hex_def padStart_def eval_chars)
  show ?thesis
    using shouldRefreshCredentials_iff [where P = demo_platform and config = demo_config
            and w = demo_world, OF c demo_digest_length]
          shouldRefreshCredentials_iff [where P = demo_platform and config = demo_config
            and w = "with_refresh_state (1700000000000 + 7200000)
                  (generateChecksum demo_platform (JObj demo_config)) demo_world",
            OF c demo_digest_length]
          shouldRefreshCredentials_iff [where P = demo_platform and config = demo_config
            and w = "with_refresh_state (1700000000000 + 240000)
                  (generateChecksum demo_platform (JObj demo_config)) demo_world",
            OF c demo_digest_length]
          shouldRefreshCredentials_iff [where P = demo_platform and config = demo_config
            and w = "with_refresh_state (1700000000000 + 7200000)
                  (generateChecksum demo_platform (JObj [])) demo_world",
            OF c demo_digest_length]
    by (simp add: t s d ne)
qed

section \<open>The self-issued identity token: its header and payload\<close>





section \<open>The two-step exchange: all or nothing\<close>


















section \<open>The lifecycle sync: validation and keys first\<close>

text \<open>The two configurations of the setup scenarios.\<close>

definition partial_config :: config where
  "partial_config =
     [(''projectId'', JStr ''p1''), (''serviceAccountEmail'', JStr ''''),
      (''workloadIdentityProvider'', JStr '''')]"

definition malformed_config :: config where
  "malformed_config =
     [(''projectId'', JStr ''p1''),
      (''serviceAccountEmail'', JStr ''sa@p1.iam.gserviceaccount.com''),
      (''workloadIdentityProvider'',
         JStr ''projects/123/locations/global/workloadIdentityPools/pool1'')]"

lemma onSync_partial:
  assumes "truthy (get_prop config ''projectId'')"
    and "\<not> truthy (get_prop config ''serviceAccountEmail'') \<or>
         \<not> truthy (get_prop config ''workloadIdentityProvider'')"
  shows "onSync P config appUrl w =
           (case ensureKeyPair P w of
              (Inl e, w1) \<Rightarrow> (sync_failed e, w1)
            | (Inr u, w1) \<Rightarrow>
                (\<lparr>newStatus = ''in_progress'', customStatusDescription = Some ''Continue setup'',
                  signalUpdates = None\<rparr>, w1))"
  using assms by (auto simp: onSync_def split: prod.splits sum.splits)

lemma onSync_malformed:
  assumes "truthy (get_prop config ''projectId'')"
    and "truthy (get_prop config ''serviceAccountEmail'')"
    and "get_prop config ''workloadIdentityProvider'' = JStr p" and "p \<noteq> []"
    and "\<not> str_includes p ''/providers/''"
  shows "onSync P config appUrl w =
           (case ensureKeyPair P w of
              (Inl e, w1) \<Rightarrow> (sync_failed e, w1)
            | (Inr u, w1) \<Rightarrow>
                (\<lparr>newStatus = ''failed'', customStatusDescription = Some invalid_provider_format,
                  signalUpdates = None\<rparr>, w1))"
  using assms by (auto simp: onSync_def js_includes_def split: prod.splits sum.splits)

text \<open>
  Claim C7. With a project id and without a service account email or a provider path,
  \<open>onSync\<close> makes no remote call and, key provisioning having returned, answers
  \<open>in_progress\<close> with \<open>Continue setup\<close>. With a project id, a service account email and a
  provider path that is a non-empty string without \<open>/providers/\<close>, it makes no remote call
  and answers \<open>failed\<close>, with the format description when key provisioning returned.
\<close>

theorem onSync_validation_short_circuits:
  "(truthy (get_prop config ''projectId'') \<and>
    (\<not> truthy (get_prop config ''serviceAccountEmail'') \<or>
     \<not> truthy (get_prop config ''workloadIdentityProvider'')) \<longrightarrow>
      calls (snd (onSync P config appUrl w)) = calls w \<and>
      (fst (ensureKeyPair P w) = Inr () \<longrightarrow>
         fst (onSync P config appUrl w) =
           \<lparr>newStatus = ''in_progress'', customStatusDescription = Some ''Continue setup'',
            signalUpdates = None\<rparr>)) \<and>
   (truthy (get_prop config ''projectId'') \<and>
    truthy (get_prop config ''serviceAccountEmail'') \<and>
    get_prop config ''workloadIdentityProvider'' = JStr p \<and> p \<noteq> [] \<and>
    \<not> str_includes p ''/providers/'' \<longrightarrow>
      calls (snd (onSync P config appUrl w)) = calls w \<and>
      newStatus (fst (onSync P config appUrl w)) = ''failed'' \<and>
      (fst (ensureKeyPair P w) = Inr () \<longrightarrow>
         customStatusDescription (fst (onSync P config appUrl w)) = Some invalid_provider_format))"
proof (intro conjI impI)
  assume a: "truthy (get_prop config ''projectId'') \<and>
    (\<not> truthy (get_prop config ''serviceAccountEmail'') \<or>
     \<not> truthy (get_prop config ''workloadIdentityProvider''))"
  then have o: "onSync P config appUrl w =
           (case ensureKeyPair P w of
              (Inl e, w1) \<Rightarrow> (sync_failed e, w1)
            | (Inr u, w1) \<Rightarrow>
                (\<lparr>newStatus = ''in_progress'', customStatusDescription = Some ''Continue setup'',
                  signalUpdates = None\<rparr>, w1))"
    by (intro onSync_partial) simp_all
  show "calls (snd (onSync P config appUrl w)) = calls w"
    using ensureKeyPair_keeps_calls [of P w]
    by (auto simp: o split: prod.splits sum.splits)
  show "fst (onSync P config appUrl w) =
           \<lparr>newStatus = ''in_progress'', customStatusDescription = Some ''Continue setup'',
            signalUpdates = None\<rparr>" if "fst (ensureKeyPair P w) = Inr ()"
    using that by (auto simp: o split: prod.splits sum.splits)
next
  assume a: "truthy (get_prop config ''projectId'') \<and>
    truthy (get_prop config ''serviceAccountEmail'') \<and>
    get_prop config ''workloadIdentityProvider'' = JStr p \<and> p \<noteq> [] \<and>
    \<not> str_includes p ''/providers/''"
  then have o: "onSync P config appUrl w =
           (case ensureKeyPair P w of
              (Inl e, w1) \<Rightarrow> (sync_failed e, w1)
            | (Inr u, w1) \<Rightarrow>
                (\<lparr>newStatus = ''failed'', customStatusDescription = Some invalid_provider_format,
                  signalUpdates = None\<rparr>, w1))"
    by (intro onSync_malformed [where p = p]) simp_all
  show "calls (snd (onSync P config appUrl w)) = calls w"
    using ensureKeyPair_keeps_calls [of P w]
    by (auto simp: o split: prod.splits sum.splits)
  show "newStatus (fst (onSync P config appUrl w)) = ''failed''"
    by (auto simp: o sync_failed_def split: prod.splits sum.splits)
  show "customStatusDescription (fst (onSync P config appUrl w)) = Some invalid_provider_format"
    if "fst (ensureKeyPair P w) = Inr ()"
    using that by (auto simp: o split: prod.splits sum.splits)
qed

theorem onSync_validation_short_circuits_witness:
  "fst (onSync demo_platform partial_config ''https://app.example.com'' demo_world) =
     \<lparr>newStatus = ''in_progress'', customStatusDescription = Some ''Continue setup'',
      signalUpdates = None\<rparr> \<and>
   calls (snd (onSync demo_platform partial_config ''https://app.example.com'' demo_world)) = [] \<and>
   newStatus (fst (onSync demo_platform malformed_config ''https://app.example.com'' demo_world))
     = ''failed'' \<and>
   customStatusDescription
     (fst (onSync demo_platform malformed_config ''https://app.example.com'' demo_world))
     = Some invalid_provider_format \<and>
   calls (snd (onSync demo_platform malformed_config ''https://app.example.com'' demo_world)) = []"
proof -
  have k: "fst (ensureKeyPair demo_platform demo_world) = Inr ()"
    by (simp add: demo_ensureKeyPair)
  have c: "calls demo_world = []"
    by (simp add: demo_world_def)
  have p: "truthy (get_prop partial_config ''projectId'') \<and>
    (\<not> truthy (get_prop partial_config ''serviceAccountEmail'') \<or>
     \<not> truthy (get_prop partial_config ''workloadIdentityProvider''))"
    by (simp add: partial_config_def get_prop_def)
  have m: "truthy (get_prop malformed_config ''projectId'') \<and>
    truthy (get_prop malformed_config ''serviceAccountEmail'') \<and>
    get_prop malformed_config ''workloadIdentityProvider''
      = JStr ''projects/123/locations/global/workloadIdentityPools/pool1'' \<and>
    ''projects/123/locations/global/workloadIdentityPools/pool1'' \<noteq> [] \<and>
    \<not> str_includes ''projects/123/locations/global/workloadIdentityPools/pool1'' ''/providers/''"
    by (simp add: malformed_config_def get_prop_def)
  show ?thesis
    using onSync_validation_short_circuits [where config = partial_config
            and P = demo_platform and appUrl = "''https://app.example.com''"
            and w = demo_world] p
          onSync_validation_short_circuits [where config = malformed_config
            and p = "''projects/123/locations/global/workloadIdentityPools/pool1''"
            and P = demo_platform and appUrl = "''https://app.example.com''"
            and w = demo_world] m
    by (simp add: k c)
qed

text \<open>
  Claim C10. With a project id, \<open>onSync\<close> runs \<open>ensureKeyPair\<close> before it looks at the
  service account email and the provider path: a throw of the key provisioning is the
  outcome whatever these two hold. So when \<open>onSync\<close> answers \<open>in_progress\<close> (the platform's
  UUIDs being non-empty), \<open>ensureKeyPair\<close> has returned, the private key, the public key and
  a non-empty key id are in the store, and \<open>handleJwks\<close> answers 200 on that world.
\<close>

theorem onSync_provisions_keys_first:
  "(truthy (get_prop config ''projectId'') \<longrightarrow>
      (\<forall>e w1. ensureKeyPair P w = (Inl e, w1) \<longrightarrow>
         onSync P config appUrl w = (sync_failed e, w1))) \<and>
   (\<forall>out w'. onSync P config appUrl w = (out, w') \<and> newStatus out = ''in_progress'' \<and>
       (\<forall>t. randomUUID P t \<noteq> []) \<longrightarrow>
       truthy (get_prop config ''projectId'') \<and>
       ensureKeyPair P w = (Inr (), w') \<and>
       (\<exists>priv pub kid. privateKey (store w') = Some priv \<and> publicKey (store w') = Some pub \<and>
                        keyId (store w') = Some kid \<and> kid \<noteq> []) \<and>
       (\<exists>resp. handleJwks w' = Inr resp \<and> statusCode resp = 200))"
proof (intro conjI impI allI)
  fix e w1
  assume "truthy (get_prop config ''projectId'')" and "ensureKeyPair P w = (Inl e, w1)"
  then show "onSync P config appUrl w = (sync_failed e, w1)"
    by (simp add: onSync_def)
next
  fix out w'
  assume a: "onSync P config appUrl w = (out, w') \<and> newStatus out = ''in_progress'' \<and>
       (\<forall>t. randomUUID P t \<noteq> [])"
  then have pk: "truthy (get_prop config ''projectId'') \<and> ensureKeyPair P w = (Inr (), w')"
    by (auto simp: onSync_def sync_failed_def split: prod.splits sum.splits if_splits)
  then show "truthy (get_prop config ''projectId'')" and "ensureKeyPair P w = (Inr (), w')"
    by simp_all
  from pk a have "\<exists>priv pub kid. privateKey (store w') = Some priv \<and>
      publicKey (store w') = Some pub \<and> keyId (store w') = Some kid \<and> kid \<noteq> []"
    by (intro ensureKeyPair_returns_keys [of P w _ w']) simp_all
  then show "\<exists>priv pub kid. privateKey (store w') = Some priv \<and>
      publicKey (store w') = Some pub \<and> keyId (store w') = Some kid \<and> kid \<noteq> []"
    and "\<exists>resp. handleJwks w' = Inr resp \<and> statusCode resp = 200"
    by (auto simp: handleJwks_def)
qed

theorem onSync_provisions_keys_first_witness:
  "newStatus (fst (onSync demo_platform partial_config ''https://app.example.com'' demo_world))
     = ''in_progress'' \<and>
   (\<exists>priv pub kid.
      privateKey (store (snd (onSync demo_platform partial_config ''https://app.example.com''
                                demo_world))) = Some priv \<and>
      publicKey (store (snd (onSync demo_platform partial_config ''https://app.example.com''
                                demo_world))) = Some pub \<and>
      keyId (store (snd (onSync demo_platform partial_config ''https://app.example.com''
                                demo_world))) = Some kid \<and> kid \<noteq> []) \<and>
   (\<exists>resp. handleJwks (snd (onSync demo_platform partial_config ''https://app.example.com''
                               demo_world)) = Inr resp \<and> statusCode resp = 200)"
proof -
  let ?o = "onSync demo_platform partial_config ''https://app.example.com'' demo_world"
  have s: "newStatus (fst ?o) = ''in_progress''"
    by (simp add: onSync_def partial_config_def get_prop_def demo_ensureKeyPair)
  have "?o = (fst ?o, snd ?o) \<and> newStatus (fst ?o) = ''in_progress'' \<and>
        (\<forall>t. randomUUID demo_platform t \<noteq> [])"
    using s demo_uuid_nonempty by simp
  with onSync_provisions_keys_first [where config = partial_config and P = demo_platform
         and w = demo_world and appUrl = "''https://app.example.com''"] s
  show ?thesis by blast
qed

section \<open>The configuration checksum: field order and field values\<close>

subsection \<open>Decimal numbers print one-to-one\<close>











subsection \<open>Quoted strings read back\<close>










subsection \<open>Joined lists\<close>




subsection \<open>Configuration values print one-to-one\<close>







subsection \<open>Objects with one value changed\<close>





subsection \<open>UTF-8 bytes and hexadecimal digits read back\<close>










subsection \<open>Field order and field values\<close>






end
